theory Spec2Isabelle
  imports Main "HOL-Library.Sublist"
begin

section \<open>Strings of the script\<close>

text \<open>
  A JavaScript string is a sequence of UTF-16 code units. The model uses \<open>string\<close>
  (a list of \<open>char\<close>), each \<open>char\<close> standing for the code unit of the same number, so
  it covers strings whose code units are below 256 (ASCII and Latin-1).

  \<open>isWhiteSpace\<close> is the set that \<open>String.prototype.trim\<close> strips (WhiteSpace and
  LineTerminator of the language), restricted to that range: TAB, LF, VT, FF, CR,
  SPACE and NO-BREAK SPACE.
\<close>

definition isWhiteSpace :: "char \<Rightarrow> bool" where
  "isWhiteSpace c \<longleftrightarrow> c \<in> {CHR 0x09, CHR 0x0A, CHR 0x0B, CHR 0x0C, CHR 0x0D, CHR 0x20, CHR 0xA0}"

definition trim :: "string \<Rightarrow> string" where
  "trim s = rev (dropWhile isWhiteSpace (rev (dropWhile isWhiteSpace s)))"

text \<open>
  \<open>String.prototype.toLowerCase\<close> on code units below 256: the letters A to Z and the
  Latin-1 capitals 0xC0 to 0xDE (without the multiplication sign 0xD7) move up by 32,
  every other code unit stays.
\<close>

definition lowerChar :: "char \<Rightarrow> char" where
  "lowerChar c =
     (let n = (of_char c :: nat)
      in if (0x41 \<le> n \<and> n \<le> 0x5A) \<or> (0xC0 \<le> n \<and> n \<le> 0xDE \<and> n \<noteq> 0xD7)
         then char_of (n + 32) else c)"

definition toLowerCase :: "string \<Rightarrow> string" where
  "toLowerCase s = map lowerChar s"

text \<open>
  \<open>String.prototype.includes\<close>: \<open>includesStr s p\<close> is \<^verbatim>\<open>s.includes(p)\<close>, true when \<open>p\<close>
  occurs in \<open>s\<close> as a contiguous run. \<open>startsWith s p\<close> tests the occurrence at the
  front.
\<close>

fun startsWith :: "string \<Rightarrow> string \<Rightarrow> bool" where
  "startsWith s [] = True"
| "startsWith [] (p # ps) = False"
| "startsWith (c # cs) (p # ps) = (c = p \<and> startsWith cs ps)"

fun includesStr :: "string \<Rightarrow> string \<Rightarrow> bool" where
  "includesStr [] p = (p = [])"
| "includesStr (c # cs) p = (startsWith (c # cs) p \<or> includesStr cs p)"

section \<open>The reply rules of the chatbot\<close>

text \<open>
  \<^verbatim>\<open>
  function generateBotResponse(userInput) {
      const input = userInput.toLowerCase();
      if (input.includes('hello') || input.includes('hi')) return 'Hello there! ...';
      if (input.includes('scheme') || input.includes('pension')) return 'You can find ...';
      if (input.includes('help') || input.includes('support')) return 'I am here to help. ...';
      if (input.includes('thank')) return 'You\'re welcome! ...';
      return "I'm sorry, I'm still learning. ...";
  }
  \<close>
\<close>

definition greetingReply :: string where
  \<open>greetingReply = ''Hello there! How can I assist you today?''\<close>

definition schemeReply :: string where
  \<open>schemeReply = ''You can find detailed information on government schemes in our "Services Hub".''\<close>

definition helpReply :: string where
  \<open>helpReply = ''I am here to help. You can ask me about services, resources, or the community forum.''\<close>

definition thanksReply :: string where
  \<open>thanksReply = ''You're welcome! Is there anything else I can help with?''\<close>

definition fallbackReply :: string where
  \<open>fallbackReply = ''I'm sorry, I'm still learning. Try asking about 'schemes' or 'help'.''\<close>

definition generateBotResponse :: "string \<Rightarrow> string" where
  "generateBotResponse userInput =
     (let input = toLowerCase userInput
      in if includesStr input ''hello'' \<or> includesStr input ''hi'' then greetingReply
         else if includesStr input ''scheme'' \<or> includesStr input ''pension'' then schemeReply
         else if includesStr input ''help'' \<or> includesStr input ''support'' then helpReply
         else if includesStr input ''thank'' then thanksReply
         else fallbackReply)"

section \<open>The page\<close>

text \<open>
  The script works on the elements of the host page, found by their \<open>id\<close>. A \<open>handle\<close>
  is a reference to an element and is the element's id: \<open>document\<close> is the set of ids
  present in the page, \<open>props\<close> gives the properties of each element. No function of
  the script adds an element with an id to the page or removes one, so \<open>document\<close>
  never changes. The elements the script names are taken to be separate parts of the
  page (none of them lies inside the result region or the video container, whose
  markup is replaced), and to be form controls where the script reads \<open>.value\<close>.
  This view of the page serves the claims about what a handler does with the
  elements it looks up; the section on the document tree drops the assumption and
  lets an assignment to \<open>innerHTML\<close> replace what is inside the element.

  Of an element the model keeps the properties the script touches: \<open>value\<close>,
  \<open>innerHTML\<close> (the markup last assigned), \<open>style.display\<close>, the children appended
  by \<open>appendChild\<close> and \<open>scrollTop\<close> (the number last assigned). A child is the
  \<open>div\<close> that \<open>addMessageToChat\<close> creates, with its class name and its markup.
\<close>

type_synonym handle = string

record node =
  className :: string
  nodeHTML :: string

record element =
  el_value :: string
  innerHTML :: string
  display :: string
  childNodes :: "node list"
  scrollTop :: nat

text \<open>
  The functions the script hands to the browser are closures. Each is a constructor
  carrying the constants it captured: the listeners installed on page load, and the
  callback given to \<open>setTimeout\<close>, which captures \<open>userMessage\<close> and, through
  \<open>addMessageToChat\<close>, \<open>chatBody\<close>. A captured constant is \<open>None\<close> when
  \<open>getElementById\<close> returned \<open>null\<close>.
\<close>

datatype callback = BotReply "handle option" string

datatype listener =
    OpenChatbot handle
  | CloseChatbot handle
  | ChatSubmit "handle option" "handle option"

text \<open>
  Beside the elements, the state holds what the script hands to the browser: the
  registered listeners (target, event type, listener), the messages shown by \<open>alert\<close>,
  the pending timeouts with the time they are due, the current time, and the element
  last scrolled into view. \<open>layout\<close> stands for the browser's layout engine: the
  \<open>scrollHeight\<close> of an element as a function of its children.
\<close>

record page =
  document :: "handle set"
  props :: "handle \<Rightarrow> element"
  listeners :: "(handle \<times> string \<times> listener) list"
  alerts :: "string list"
  timers :: "(nat \<times> callback) list"
  clock :: nat
  inView :: "handle option"
  layout :: "node list \<Rightarrow> nat"

text \<open>
  Reading a property of \<open>null\<close> throws a \<open>TypeError\<close>. A call either returns or
  throws, and in both cases leaves a state behind.
\<close>

datatype error = TypeError

datatype 'a outcome = Returns 'a | Throws error 'a

fun after :: "'a outcome \<Rightarrow> 'a" where
  "after (Returns x) = x"
| "after (Throws e x) = x"

definition getElementById :: "page \<Rightarrow> string \<Rightarrow> handle option" where
  "getElementById pg i = (if i \<in> document pg then Some i else None)"

definition setInnerHTML :: "handle \<Rightarrow> string \<Rightarrow> page \<Rightarrow> page" where
  "setInnerHTML h v pg = pg\<lparr>props := (props pg)(h := (props pg h)\<lparr>innerHTML := v\<rparr>)\<rparr>"

definition setDisplay :: "handle \<Rightarrow> string \<Rightarrow> page \<Rightarrow> page" where
  "setDisplay h v pg = pg\<lparr>props := (props pg)(h := (props pg h)\<lparr>display := v\<rparr>)\<rparr>"

definition setValue :: "handle \<Rightarrow> string \<Rightarrow> page \<Rightarrow> page" where
  "setValue h v pg = pg\<lparr>props := (props pg)(h := (props pg h)\<lparr>el_value := v\<rparr>)\<rparr>"

definition setScrollTop :: "handle \<Rightarrow> nat \<Rightarrow> page \<Rightarrow> page" where
  "setScrollTop h v pg = pg\<lparr>props := (props pg)(h := (props pg h)\<lparr>scrollTop := v\<rparr>)\<rparr>"

definition appendChild :: "handle \<Rightarrow> node \<Rightarrow> page \<Rightarrow> page" where
  "appendChild h n pg =
     pg\<lparr>props := (props pg)(h := (props pg h)\<lparr>childNodes := childNodes (props pg h) @ [n]\<rparr>)\<rparr>"

definition scrollHeight :: "page \<Rightarrow> handle \<Rightarrow> nat" where
  "scrollHeight pg h = layout pg (childNodes (props pg h))"

definition scrollIntoView :: "handle \<Rightarrow> page \<Rightarrow> page" where
  "scrollIntoView h pg = pg\<lparr>inView := Some h\<rparr>"

definition alert :: "string \<Rightarrow> page \<Rightarrow> page" where
  "alert msg pg = pg\<lparr>alerts := alerts pg @ [msg]\<rparr>"

definition setTimeout :: "callback \<Rightarrow> nat \<Rightarrow> page \<Rightarrow> page" where
  "setTimeout cb delay pg = pg\<lparr>timers := timers pg @ [(clock pg + delay, cb)]\<rparr>"

definition addEventListener :: "handle \<Rightarrow> string \<Rightarrow> listener \<Rightarrow> page \<Rightarrow> page" where
  "addEventListener h ty l pg = pg\<lparr>listeners := listeners pg @ [(h, ty, l)]\<rparr>"

section \<open>The Services Hub search\<close>

text \<open>
  \<^verbatim>\<open>
  function searchResources() {
      const domain = document.getElementById("domain").value;
      const location = document.getElementById("location").value.trim();
      const resultDiv = document.getElementById("planResult");
      if (!domain || !location) {
          if(resultDiv) {
              resultDiv.innerHTML = `<div class="card" ...>...</div>`;
              resultDiv.style.display = 'block';
          }
          return;
      }
      let headerText = `Displaying mock results for ${domain} in ${location}`;
      if(resultDiv) {
          resultDiv.innerHTML = `<div class="result-header"><h2>${headerText}</h2></div>`;
          resultDiv.style.display = 'block';
          resultDiv.scrollIntoView({ behavior: 'smooth' });
      }
  }
  \<close>
  The two reads of \<open>.value\<close> come first and are not guarded: each throws when its
  element is missing. A string is falsy exactly when it is empty.
\<close>

definition errorCard :: string where
  \<open>errorCard = ''<div class="card" style="text-align: center; color: #c62828; background-color: #ffebee; padding: 20px;"><strong>Please complete all fields to perform a search.</strong></div>''\<close>

definition headerText :: "string \<Rightarrow> string \<Rightarrow> string" where
  "headerText domain location = ''Displaying mock results for '' @ domain @ '' in '' @ location"

definition resultHeader :: "string \<Rightarrow> string" where
  \<open>resultHeader text = ''<div class="result-header"><h2>'' @ text @ ''</h2></div>''\<close>

definition searchResources :: "page \<Rightarrow> page outcome" where
  "searchResources pg =
     (case getElementById pg ''domain'' of
        None \<Rightarrow> Throws TypeError pg
      | Some d \<Rightarrow>
          (let domain = el_value (props pg d) in
           case getElementById pg ''location'' of
             None \<Rightarrow> Throws TypeError pg
           | Some l \<Rightarrow>
               (let location = trim (el_value (props pg l));
                    resultDiv = getElementById pg ''planResult''
                in if domain = [] \<or> location = [] then
                     (case resultDiv of
                        None \<Rightarrow> Returns pg
                      | Some r \<Rightarrow>
                          Returns (setDisplay r ''block'' (setInnerHTML r errorCard pg)))
                   else
                     (case resultDiv of
                        None \<Rightarrow> Returns pg
                      | Some r \<Rightarrow>
                          Returns (scrollIntoView r (setDisplay r ''block''
                            (setInnerHTML r (resultHeader (headerText domain location)) pg)))))))"

section \<open>The Video Guide search\<close>

text \<open>
  \<^verbatim>\<open>
  function searchVideos(query) {
      const searchInput = document.getElementById('searchInput');
      const videoContainer = document.getElementById('videoContainer');
      const searchTerm = query || (searchInput ? searchInput.value.trim() : '');
      if (!searchTerm) {
          alert('Please enter a search topic.');
          return;
      }
      if(videoContainer) {
          videoContainer.innerHTML = `<p style="...">Showing mock video results for "${searchTerm}"...</p>`;
      }
  }
  \<close>
  The argument is \<open>None\<close> when the function is called without one, and a string
  otherwise. An explicit query is used as it is, untrimmed, unless it is empty.
\<close>

definition videoPlaceholder :: "string \<Rightarrow> string" where
  \<open>videoPlaceholder searchTerm =
     ''<p style="text-align:center; padding: 20px;">Showing mock video results for "'' @ searchTerm @ ''"...</p>''\<close>

definition searchVideos :: "string option \<Rightarrow> page \<Rightarrow> page outcome" where
  "searchVideos query pg =
     (let searchInput = getElementById pg ''searchInput'';
          videoContainer = getElementById pg ''videoContainer'';
          fromField = (case searchInput of
                         Some i \<Rightarrow> trim (el_value (props pg i))
                       | None \<Rightarrow> []);
          searchTerm = (case query of
                          Some q \<Rightarrow> if q \<noteq> [] then q else fromField
                        | None \<Rightarrow> fromField)
      in if searchTerm = [] then Returns (alert ''Please enter a search topic.'' pg)
         else (case videoContainer of
                 None \<Rightarrow> Returns pg
               | Some v \<Rightarrow> Returns (setInnerHTML v (videoPlaceholder searchTerm) pg)))"

text \<open>
  \<open>searchTermOf\<close> is the value that the constant \<open>searchTerm\<close> of \<open>searchVideos\<close>
  takes: the query when there is one and it is not empty, the trimmed value of the
  field otherwise, and the empty string when the field is missing too.
\<close>

definition searchTermOf :: "string option \<Rightarrow> page \<Rightarrow> string" where
  "searchTermOf query pg =
     (let fromField = (if ''searchInput'' \<in> document pg
                       then trim (el_value (props pg ''searchInput'')) else [])
      in case query of
           Some q \<Rightarrow> if q \<noteq> [] then q else fromField
         | None \<Rightarrow> fromField)"

section \<open>The chatbot\<close>

text \<open>
  \<^verbatim>\<open>
  function addMessageToChat(sender, message) {
      if (!chatBody) return; // Safety check
      const messageWrapper = document.createElement('div');
      messageWrapper.className = `chat-message ${sender}-message`;
      messageWrapper.innerHTML = `<p>${message}</p>`;
      chatBody.appendChild(messageWrapper);
      chatBody.scrollTop = chatBody.scrollHeight;
  }
  \<close>
  \<open>chatBody\<close> is a constant of the enclosing function; here it is the first argument.
\<close>

definition addMessageToChat :: "handle option \<Rightarrow> string \<Rightarrow> string \<Rightarrow> page \<Rightarrow> page" where
  "addMessageToChat chatBody sender message pg =
     (case chatBody of
        None \<Rightarrow> pg
      | Some b \<Rightarrow>
          (let messageWrapper =
                 \<lparr>className = ''chat-message '' @ sender @ ''-message'',
                  nodeHTML = ''<p>'' @ message @ ''</p>''\<rparr>;
               pg1 = appendChild b messageWrapper pg
           in setScrollTop b (scrollHeight pg1 b) pg1))"

text \<open>
  The callback of \<open>setTimeout\<close>:
  \<^verbatim>\<open>
  () => {
      const botResponse = generateBotResponse(userMessage);
      addMessageToChat('bot', botResponse);
  }
  \<close>
\<close>

fun runCallback :: "callback \<Rightarrow> page \<Rightarrow> page" where
  "runCallback (BotReply chatBody userMessage) pg =
     (let botResponse = generateBotResponse userMessage
      in addMessageToChat chatBody ''bot'' botResponse pg)"

text \<open>
  The submit listener of the chat form. Of the event object the listener touches the
  \<open>defaultPrevented\<close> flag only.
  \<^verbatim>\<open>
  (event) => {
      event.preventDefault();
      const userMessage = chatInputField.value.trim();
      if (userMessage) {
          addMessageToChat('user', userMessage);
          chatInputField.value = '';
          setTimeout(() => { ... }, 1000);
      }
  }
  \<close>
  \<open>chatInputField\<close> is not among the constants the page-load function checks, so the
  read of \<open>.value\<close> throws when the field is missing, after the default action has
  been prevented.
\<close>

record dom_event =
  defaultPrevented :: bool

definition preventDefault :: "dom_event \<Rightarrow> dom_event" where
  "preventDefault event = event\<lparr>defaultPrevented := True\<rparr>"

definition chatSubmit ::
  "handle option \<Rightarrow> handle option \<Rightarrow> dom_event \<Rightarrow> page \<Rightarrow> (dom_event \<times> page) outcome" where
  "chatSubmit chatInputField chatBody event pg =
     (let event1 = preventDefault event
      in case chatInputField of
           None \<Rightarrow> Throws TypeError (event1, pg)
         | Some f \<Rightarrow>
             (let userMessage = trim (el_value (props pg f))
              in if userMessage \<noteq> [] then
                   (let pg1 = addMessageToChat chatBody ''user'' userMessage pg;
                        pg2 = setValue f [] pg1;
                        pg3 = setTimeout (BotReply chatBody userMessage) 1000 pg2
                    in Returns (event1, pg3))
                 else Returns (event1, pg)))"

text \<open>
  The two click listeners set \<open>chatbotContainer.style.display\<close> to \<open>'flex'\<close> and to
  \<open>'none'\<close>.
\<close>

fun runListener :: "listener \<Rightarrow> dom_event \<Rightarrow> page \<Rightarrow> (dom_event \<times> page) outcome" where
  "runListener (OpenChatbot chatbotContainer) event pg =
     Returns (event, setDisplay chatbotContainer ''flex'' pg)"
| "runListener (CloseChatbot chatbotContainer) event pg =
     Returns (event, setDisplay chatbotContainer ''none'' pg)"
| "runListener (ChatSubmit chatInputField chatBody) event pg =
     chatSubmit chatInputField chatBody event pg"

text \<open>
  The function run on \<open>DOMContentLoaded\<close>: it looks six elements up and installs the
  three listeners when the first four of its test are there.
  \<^verbatim>\<open>
  if (openChatbotBtn && chatbotContainer && closeChatbotBtn && chatForm) {
      openChatbotBtn.addEventListener('click', ...);
      closeChatbotBtn.addEventListener('click', ...);
      chatForm.addEventListener('submit', ...);
  }
  \<close>
\<close>

definition DOMContentLoaded :: "page \<Rightarrow> page" where
  "DOMContentLoaded pg =
     (let openChatbotBtn = getElementById pg ''open-chatbot-btn'';
          chatbotContainer = getElementById pg ''chatbot-container'';
          closeChatbotBtn = getElementById pg ''close-chatbot-btn'';
          chatForm = getElementById pg ''chat-form'';
          chatInputField = getElementById pg ''chat-input-field'';
          chatBody = getElementById pg ''chat-body''
      in case openChatbotBtn of
           None \<Rightarrow> pg
         | Some ob \<Rightarrow>
        (case chatbotContainer of
           None \<Rightarrow> pg
         | Some cc \<Rightarrow>
        (case closeChatbotBtn of
           None \<Rightarrow> pg
         | Some cb \<Rightarrow>
        (case chatForm of
           None \<Rightarrow> pg
         | Some cf \<Rightarrow>
             addEventListener cf ''submit'' (ChatSubmit chatInputField chatBody)
               (addEventListener cb ''click'' (CloseChatbot cc)
                 (addEventListener ob ''click'' (OpenChatbot cc) pg))))))"

section \<open>The browser around the script\<close>

text \<open>
  An event on an element runs the listeners registered for that element and event
  type, in the order of registration, on one event object. An exception thrown by a
  listener is reported by the browser and ends that listener only. The default
  action of an event that no listener prevented belongs to the browser and is not
  modelled.
\<close>

fun runListeners :: "listener list \<Rightarrow> dom_event \<Rightarrow> page \<Rightarrow> dom_event \<times> page" where
  "runListeners [] event pg = (event, pg)"
| "runListeners (l # ls) event pg =
     (case after (runListener l event pg) of (event1, pg1) \<Rightarrow> runListeners ls event1 pg1)"

definition listenersFor :: "page \<Rightarrow> handle \<Rightarrow> string \<Rightarrow> listener list" where
  "listenersFor pg target ty =
     map (\<lambda>(h, t, l). l) (filter (\<lambda>(h, t, l). h = target \<and> t = ty) (listeners pg))"

definition dispatchEvent :: "handle \<Rightarrow> string \<Rightarrow> page \<Rightarrow> dom_event \<times> page" where
  "dispatchEvent target ty pg =
     runListeners (listenersFor pg target ty) \<lparr>defaultPrevented = False\<rparr> pg"

text \<open>
  Time passes in steps: \<open>elapse d\<close> moves the clock by \<open>d\<close> and runs the callbacks of
  the timeouts that are due by then, earliest first and, among equal times, in the
  order they were set (\<open>sort_key\<close> is stable). No callback of the script sets a
  timeout, so one pass over the due ones is all there is to run.
\<close>

fun fireAll :: "(nat \<times> callback) list \<Rightarrow> page \<Rightarrow> page" where
  "fireAll [] pg = pg"
| "fireAll ((t, cb) # ts) pg = fireAll ts (runCallback cb pg)"

definition elapse :: "nat \<Rightarrow> page \<Rightarrow> page" where
  "elapse d pg =
     (let now = clock pg + d;
          due = sort_key fst (filter (\<lambda>(t, cb). t \<le> now) (timers pg));
          later = filter (\<lambda>(t, cb). now < t) (timers pg)
      in fireAll due (pg\<lparr>timers := later, clock := now\<rparr>))"

text \<open>
  What can happen to a loaded page: the two search buttons call their functions, the
  user clicks an element or submits a form, the user edits a form control, and time
  passes.
\<close>

datatype action =
    CallSearchResources
  | CallSearchVideos "string option"
  | Fire handle string
  | Edit handle string
  | Elapse nat

fun step :: "action \<Rightarrow> page \<Rightarrow> page" where
  "step CallSearchResources pg = after (searchResources pg)"
| "step (CallSearchVideos query) pg = after (searchVideos query pg)"
| "step (Fire target ty) pg = snd (dispatchEvent target ty pg)"
| "step (Edit h v) pg = (if h \<in> document pg then setValue h v pg else pg)"
| "step (Elapse d) pg = elapse d pg"

fun run :: "action list \<Rightarrow> page \<Rightarrow> page" where
  "run [] pg = pg"
| "run (a # as) pg = run as (step a pg)"

text \<open>The transcript is the list of children of the chat body.\<close>

definition transcript :: "page \<Rightarrow> node list" where
  "transcript pg = childNodes (props pg ''chat-body'')"

text \<open>
  The clicks on the two buttons of the chatbot, and the listeners that the page-load
  function installs when its test succeeds.
\<close>

definition openClick :: action where
  "openClick = Fire ''open-chatbot-btn'' ''click''"

definition closeClick :: action where
  "closeClick = Fire ''close-chatbot-btn'' ''click''"

definition chatbotListeners :: "handle option \<Rightarrow> handle option \<Rightarrow> (handle \<times> string \<times> listener) list" where
  "chatbotListeners chatInputField chatBody =
     [(''open-chatbot-btn'', ''click'', OpenChatbot ''chatbot-container''),
      (''close-chatbot-btn'', ''click'', CloseChatbot ''chatbot-container''),
      (''chat-form'', ''submit'', ChatSubmit chatInputField chatBody)]"

section \<open>The document as a tree\<close>

text \<open>
  The sections above keep, of the page, the elements that the script looks up and
  the markup last assigned to each. What becomes of the transcript depends on more:
  on where the elements lie in the document, since an assignment to \<open>innerHTML\<close>
  replaces all that is inside the element, and on the elements that the assigned
  markup creates, since they can be found by their id afterwards. This section
  embeds the script a second time, over a document tree, without the assumption that
  the elements are separate parts of the page.

  A \<open>ref\<close> is a reference to an element, as a constant of the script holds it. An
  element has the attributes and properties the script uses and its child nodes;
  the other kind of node is text. \<open>markup\<close> is what the browser's parser makes of a
  string: text, and elements with their id and children. Markup is taken to be
  inert (it runs no script).
\<close>

type_synonym ref = nat

record attrs =
  idAttr :: string
  classAttr :: string
  valueAttr :: string
  displayAttr :: string
  scrollAttr :: nat

datatype dom = Text string | Elem ref attrs "dom list"

datatype markup = MText string | MElem string "markup list"

datatype dom_callback = ReplyLater "ref option" string

datatype dom_listener =
    OpenPanel ref
  | ClosePanel ref
  | SubmitChat "ref option" "ref option"

record dom_page =
  docBody :: "dom list"
  detached :: "dom list"
  nextRef :: ref
  parseHTML :: "string \<Rightarrow> markup list"
  domListeners :: "(ref \<times> string \<times> dom_listener) list"
  domAlerts :: "string list"
  domTimers :: "(nat \<times> dom_callback) list"
  domClock :: nat
  domInView :: "ref option"
  domLayout :: "dom list \<Rightarrow> nat"

text \<open>
  The references in a tree, the element with a given reference, the first element
  in document order with a given id, the change of the elements with a given
  reference (their attributes and children), and the references that lie strictly
  inside the elements with a given reference.
\<close>

fun refsOf :: "dom \<Rightarrow> ref list" and refsIn :: "dom list \<Rightarrow> ref list" where
  "refsOf (Text s) = []"
| "refsOf (Elem r a ks) = r # refsIn ks"
| "refsIn [] = []"
| "refsIn (d # ds) = refsOf d @ refsIn ds"

fun findDom :: "ref \<Rightarrow> dom \<Rightarrow> dom option" and findIn :: "ref \<Rightarrow> dom list \<Rightarrow> dom option" where
  "findDom r (Text s) = None"
| "findDom r (Elem q a ks) = (if q = r then Some (Elem q a ks) else findIn r ks)"
| "findIn r [] = None"
| "findIn r (d # ds) = (case findDom r d of Some e \<Rightarrow> Some e | None \<Rightarrow> findIn r ds)"

fun byIdDom :: "string \<Rightarrow> dom \<Rightarrow> ref option" and byIdIn :: "string \<Rightarrow> dom list \<Rightarrow> ref option" where
  "byIdDom i (Text s) = None"
| "byIdDom i (Elem q a ks) = (if idAttr a = i then Some q else byIdIn i ks)"
| "byIdIn i [] = None"
| "byIdIn i (d # ds) = (case byIdDom i d of Some q \<Rightarrow> Some q | None \<Rightarrow> byIdIn i ds)"

fun modifyDom :: "ref \<Rightarrow> (attrs \<times> dom list \<Rightarrow> attrs \<times> dom list) \<Rightarrow> dom \<Rightarrow> dom"
  and modifyIn :: "ref \<Rightarrow> (attrs \<times> dom list \<Rightarrow> attrs \<times> dom list) \<Rightarrow> dom list \<Rightarrow> dom list" where
  "modifyDom r f (Text s) = Text s"
| "modifyDom r f (Elem q a ks) =
     (if q = r then (case f (a, ks) of (a1, ks1) \<Rightarrow> Elem q a1 ks1)
      else Elem q a (modifyIn r f ks))"
| "modifyIn r f [] = []"
| "modifyIn r f (d # ds) = modifyDom r f d # modifyIn r f ds"







definition update :: "ref \<Rightarrow> (attrs \<times> dom list \<Rightarrow> attrs \<times> dom list) \<Rightarrow> dom_page \<Rightarrow> dom_page" where
  "update r f pg = pg\<lparr>docBody := modifyIn r f (docBody pg), detached := modifyIn r f (detached pg)\<rparr>"



definition setDisplay_tree :: "ref \<Rightarrow> string \<Rightarrow> dom_page \<Rightarrow> dom_page" where
  "setDisplay_tree r v pg = update r (\<lambda>(a, ks). (a\<lparr>displayAttr := v\<rparr>, ks)) pg"

definition setValue_tree :: "ref \<Rightarrow> string \<Rightarrow> dom_page \<Rightarrow> dom_page" where
  "setValue_tree r v pg = update r (\<lambda>(a, ks). (a\<lparr>valueAttr := v\<rparr>, ks)) pg"

definition setScrollTop_tree :: "ref \<Rightarrow> nat \<Rightarrow> dom_page \<Rightarrow> dom_page" where
  "setScrollTop_tree r v pg = update r (\<lambda>(a, ks). (a\<lparr>scrollAttr := v\<rparr>, ks)) pg"
















text \<open>
  The transcript shown by the page: the children of the chat body \<open>c\<close>, when \<open>c\<close> is
  in the document.
\<close>

definition transcript_tree :: "dom_page \<Rightarrow> ref \<Rightarrow> dom list option" where
  "transcript_tree pg c = (case findIn c (docBody pg) of Some (Elem q a ks) \<Rightarrow> Some ks | _ \<Rightarrow> None)"








text \<open>
  \<open>grown c T n pg\<close>: the transcript of \<open>pg\<close> is \<open>T\<close> followed by entries whose
  references are \<open>n\<close> or above.
\<close>

definition grown :: "ref \<Rightarrow> dom list \<Rightarrow> ref \<Rightarrow> dom_page \<Rightarrow> bool" where
  "grown c T n pg \<longleftrightarrow>
     n \<le> nextRef pg \<and>
     (\<exists>new. transcript_tree pg c = Some (T @ new) \<and> (\<forall>x\<in>set (refsIn new). n \<le> x))"



section \<open>Example pages\<close>

text \<open>
  \<open>pageOf xs\<close> is a freshly loaded page holding one element for each id of \<open>xs\<close>, with
  the given \<open>value\<close> and nothing else set; \<open>layout\<close> counts the children.
\<close>

definition blankElement :: element where
  "blankElement = \<lparr>el_value = [], innerHTML = [], display = [], childNodes = [], scrollTop = 0\<rparr>"

definition pageOf :: "(handle \<times> string) list \<Rightarrow> page" where
  "pageOf xs =
     \<lparr>document = set (map fst xs),
      props = (\<lambda>h. case map_of xs h of
                      Some v \<Rightarrow> blankElement\<lparr>el_value := v\<rparr>
                    | None \<Rightarrow> blankElement),
      listeners = [], alerts = [], timers = [], clock = 0, inView = None,
      layout = length\<rparr>"

text \<open>
  The page of the Services Hub with its selector, location field and result region;
  the page of the Video Guide with its field and container; a page with the six
  elements of the chatbot, the input field holding \<open>v\<close>.
\<close>

definition plannerPage :: "string \<Rightarrow> string \<Rightarrow> page" where
  "plannerPage d l = pageOf [(''domain'', d), (''location'', l), (''planResult'', [])]"

definition guidePage :: "string \<Rightarrow> page" where
  "guidePage v = pageOf [(''searchInput'', v), (''videoContainer'', [])]"

definition chatPage :: "string \<Rightarrow> page" where
  "chatPage v =
     pageOf [(''open-chatbot-btn'', []), (''chatbot-container'', []),
             (''close-chatbot-btn'', []), (''chat-form'', []),
             (''chat-input-field'', v), (''chat-body'', [])]"

text \<open>
  Three pages with only part of the chatbot: one without the input field, one without
  the transcript region (the input field holding \<open>v\<close>), one without the form.
\<close>

definition noInputPage :: page where
  "noInputPage =
     pageOf [(''open-chatbot-btn'', []), (''chatbot-container'', []),
             (''close-chatbot-btn'', []), (''chat-form'', []), (''chat-body'', [])]"

definition noBodyPage :: "string \<Rightarrow> page" where
  "noBodyPage v =
     pageOf [(''open-chatbot-btn'', []), (''chatbot-container'', []),
             (''close-chatbot-btn'', []), (''chat-form'', []),
             (''chat-input-field'', v)]"

definition noFormPage :: page where
  "noFormPage =
     pageOf [(''open-chatbot-btn'', []), (''chatbot-container'', []),
             (''close-chatbot-btn'', []), (''chat-body'', [])]"

text \<open>The chatbot page after the user has typed "hello" and submitted it.\<close>

definition talkedPage :: page where
  "talkedPage = run [Edit ''chat-input-field'' ''hello'', Fire ''chat-form'' ''submit'']
                  (DOMContentLoaded (chatPage []))"












section \<open>Facts about the string functions\<close>

lemma startsWith_iff_prefix: "startsWith s p \<longleftrightarrow> prefix p s"
  by (induction s p rule: startsWith.induct) auto

lemma includes_iff_sublist: "includesStr s p \<longleftrightarrow> sublist p s"
proof (induction s)
  case Nil
  show ?case by simp
next
  case (Cons c cs)
  show ?case
    by (simp only: includesStr.simps Cons.IH startsWith_iff_prefix sublist_Cons_right)
qed

lemma trim_empty_iff: "trim s = [] \<longleftrightarrow> (\<forall>c\<in>set s. isWhiteSpace c)"
proof -
  have "trim s = [] \<longleftrightarrow> dropWhile isWhiteSpace (rev (dropWhile isWhiteSpace s)) = []"
    by (simp add: trim_def)
  also have "\<dots> \<longleftrightarrow> (\<forall>c\<in>set (dropWhile isWhiteSpace s). isWhiteSpace c)"
    by (simp add: dropWhile_eq_Nil_conv)
  also have "\<dots> \<longleftrightarrow> dropWhile isWhiteSpace s = []"
  proof
    assume a: "\<forall>c\<in>set (dropWhile isWhiteSpace s). isWhiteSpace c"
    show "dropWhile isWhiteSpace s = []"
    proof (rule ccontr)
      assume "dropWhile isWhiteSpace s \<noteq> []"
      then have "\<not> isWhiteSpace (hd (dropWhile isWhiteSpace s))"
        and "hd (dropWhile isWhiteSpace s) \<in> set (dropWhile isWhiteSpace s)"
        by (simp_all add: hd_dropWhile)
      with a show False by blast
    qed
  next
    assume "dropWhile isWhiteSpace s = []"
    then show "\<forall>c\<in>set (dropWhile isWhiteSpace s). isWhiteSpace c"
      by (simp only: list.set ball_empty)
  qed
  also have "\<dots> \<longleftrightarrow> (\<forall>c\<in>set s. isWhiteSpace c)"
    by (simp add: dropWhile_eq_Nil_conv)
  finally show ?thesis .
qed

section \<open>Claims about the reply rules\<close>

text \<open>
  C2: \<open>generateBotResponse\<close> applied to "I need help with my pension" returns the reply
  of the scheme/pension rule and not the reply of the help/support rule: the rules
  are tried in order and the first that matches decides. Both keywords occur in the
  lowered input, and the help rule is the one tried later.
\<close>

theorem generateBotResponse_pension_before_help:
  "generateBotResponse ''I need help with my pension'' = schemeReply
   \<and> generateBotResponse ''I need help with my pension'' \<noteq> helpReply
   \<and> includesStr (toLowerCase ''I need help with my pension'') ''pension''
   \<and> includesStr (toLowerCase ''I need help with my pension'') ''help''"
  by code_simp

text \<open>
  C3: every input whose lowered text contains "hi" as a contiguous substring gets the
  greeting reply, whatever else the input contains: the greeting rule is the first
  rule and the test is a substring test.
\<close>

theorem generateBotResponse_hi_substring:
  "sublist ''hi'' (toLowerCase s) \<Longrightarrow> generateBotResponse s = greetingReply"
  by (simp add: generateBotResponse_def includes_iff_sublist)

theorem generateBotResponse_hi_substring_witness:
  "sublist ''hi'' (toLowerCase ''A hint about pension support'')
   \<and> generateBotResponse ''A hint about pension support'' = greetingReply
   \<and> includesStr (toLowerCase ''A hint about pension support'') ''pension''"
proof -
  have inc: "includesStr (toLowerCase ''A hint about pension support'') ''hi''"
    by code_simp
  have h: "sublist ''hi'' (toLowerCase ''A hint about pension support'')"
    using inc by (simp only: includes_iff_sublist)
  have p: "includesStr (toLowerCase ''A hint about pension support'') ''pension''"
    by code_simp
  show ?thesis
    using h p generateBotResponse_hi_substring [OF h] by (intro conjI)
qed

section \<open>Facts about the page functions\<close>

lemma getElementById_present: "i \<in> document pg \<Longrightarrow> getElementById pg i = Some i"
  by (simp add: getElementById_def)

lemma getElementById_absent: "i \<notin> document pg \<Longrightarrow> getElementById pg i = None"
  by (simp add: getElementById_def)

lemma searchResources_invalid:
  assumes "''domain'' \<in> document pg" and "''location'' \<in> document pg"
    and "''planResult'' \<in> document pg"
    and "el_value (props pg ''domain'') = [] \<or> trim (el_value (props pg ''location'')) = []"
  shows "searchResources pg =
           Returns (setDisplay ''planResult'' ''block'' (setInnerHTML ''planResult'' errorCard pg))"
  using assms by (auto simp add: searchResources_def getElementById_present)

lemma searchResources_valid:
  assumes "''domain'' \<in> document pg" and "''location'' \<in> document pg"
    and "''planResult'' \<in> document pg"
    and "el_value (props pg ''domain'') \<noteq> []"
    and "trim (el_value (props pg ''location'')) \<noteq> []"
  shows "searchResources pg =
           Returns (scrollIntoView ''planResult'' (setDisplay ''planResult'' ''block''
             (setInnerHTML ''planResult''
                (resultHeader (headerText (el_value (props pg ''domain''))
                                 (trim (el_value (props pg ''location''))))) pg)))"
  using assms by (simp add: searchResources_def getElementById_present)

lemma innerHTML_rendered [simp]:
  "innerHTML (props (scrollIntoView r (setDisplay r d (setInnerHTML r v pg))) r) = v"
  "innerHTML (props (setDisplay r d (setInnerHTML r v pg)) r) = v"
  by (simp_all add: scrollIntoView_def setDisplay_def setInnerHTML_def)

section \<open>Claims about the Services Hub search\<close>

text \<open>
  C4: on a page that has the selector, the location field and the result region,
  every location value that is empty or made of whitespace only makes
  \<open>searchResources\<close> put the inline error message into the result region (and show
  the region); the region does not get the header of the mock results, whatever the
  selected domain is.
\<close>

theorem searchResources_blank_location:
  assumes "''domain'' \<in> document pg" and "''location'' \<in> document pg"
    and "''planResult'' \<in> document pg"
    and "\<forall>c\<in>set (el_value (props pg ''location'')). isWhiteSpace c"
  shows "searchResources pg =
           Returns (setDisplay ''planResult'' ''block'' (setInnerHTML ''planResult'' errorCard pg))
         \<and> innerHTML (props (after (searchResources pg)) ''planResult'') = errorCard
         \<and> innerHTML (props (after (searchResources pg)) ''planResult'') \<noteq> resultHeader t
         \<and> \<not> includesStr (innerHTML (props (after (searchResources pg)) ''planResult''))
                ''Displaying mock results for''"
proof -
  have blank: "trim (el_value (props pg ''location'')) = []"
    using assms(4) by (simp only: trim_empty_iff)
  have r: "searchResources pg =
      Returns (setDisplay ''planResult'' ''block'' (setInnerHTML ''planResult'' errorCard pg))"
    using assms(1-3) blank by (simp add: searchResources_invalid)
  have e: "innerHTML (props (after (searchResources pg)) ''planResult'') = errorCard"
    by (simp add: r)
  have n: "errorCard \<noteq> resultHeader t"
    by (simp add: errorCard_def resultHeader_def)
  have m: "\<not> includesStr errorCard ''Displaying mock results for''"
    by code_simp
  show ?thesis using r e n m by simp
qed

theorem searchResources_blank_location_witness:
  "searchResources (plannerPage ''Pension'' [CHR 0x20, CHR 0x09]) =
     Returns (setDisplay ''planResult'' ''block'' (setInnerHTML ''planResult'' errorCard
        (plannerPage ''Pension'' [CHR 0x20, CHR 0x09])))
   \<and> innerHTML (props (after (searchResources
        (plannerPage ''Pension'' [CHR 0x20, CHR 0x09]))) ''planResult'')
       = errorCard"
  using searchResources_blank_location
    [of "plannerPage ''Pension'' [CHR 0x20, CHR 0x09]"]
  by (simp add: plannerPage_def pageOf_def isWhiteSpace_def)

text \<open>
  C6: with the domain "Pension" and the location "Austin" (and the result region
  present), \<open>searchResources\<close> returns normally and sets the markup of the result
  region to the header around the text "Displaying mock results for Pension in
  Austin": the text occurs in the markup, and the two values stand in it as they
  were read, with no escaping.
\<close>

theorem searchResources_pension_austin:
  assumes "''domain'' \<in> document pg" and "''location'' \<in> document pg"
    and "''planResult'' \<in> document pg"
    and "el_value (props pg ''domain'') = ''Pension''"
    and "el_value (props pg ''location'') = ''Austin''"
  shows \<open>searchResources pg =
           Returns (scrollIntoView ''planResult'' (setDisplay ''planResult'' ''block''
             (setInnerHTML ''planResult'' (resultHeader (headerText ''Pension'' ''Austin'')) pg)))
         \<and> innerHTML (props (after (searchResources pg)) ''planResult'') =
           ''<div class="result-header"><h2>Displaying mock results for Pension in Austin</h2></div>''
         \<and> sublist ''Displaying mock results for Pension in Austin''
               (innerHTML (props (after (searchResources pg)) ''planResult''))
         \<and> innerHTML (props (after (searchResources pg)) ''planResult'') =
             resultHeader (''Displaying mock results for '' @ el_value (props pg ''domain'')
                             @ '' in '' @ el_value (props pg ''location''))\<close>
proof -
  have t: "trim ''Austin'' = ''Austin''"
    by (simp add: trim_def isWhiteSpace_def)
  have q: "searchResources pg =
             Returns (scrollIntoView ''planResult'' (setDisplay ''planResult'' ''block''
               (setInnerHTML ''planResult'' (resultHeader (headerText ''Pension'' ''Austin'')) pg)))"
    using assms t by (simp add: searchResources_valid)
  have r: "innerHTML (props (after (searchResources pg)) ''planResult'') =
             resultHeader (headerText ''Pension'' ''Austin'')"
    by (simp add: q)
  have s: "includesStr (resultHeader (headerText ''Pension'' ''Austin''))
             ''Displaying mock results for Pension in Austin''"
    by code_simp
  have s': "sublist ''Displaying mock results for Pension in Austin''
              (resultHeader (headerText ''Pension'' ''Austin''))"
    using s by (simp only: includes_iff_sublist)
  have l: \<open>resultHeader (headerText ''Pension'' ''Austin'') =
     ''<div class="result-header"><h2>Displaying mock results for Pension in Austin</h2></div>''\<close>
    by (simp add: resultHeader_def headerText_def)
  show ?thesis
    using q r s' l assms(4,5) by (simp add: headerText_def)
qed

theorem searchResources_pension_austin_witness:
  \<open>innerHTML (props (after (searchResources (plannerPage ''Pension'' ''Austin''))) ''planResult'') =
     ''<div class="result-header"><h2>Displaying mock results for Pension in Austin</h2></div>''\<close>
proof -
  have "''domain'' \<in> document (plannerPage ''Pension'' ''Austin'')"
    and "''location'' \<in> document (plannerPage ''Pension'' ''Austin'')"
    and "''planResult'' \<in> document (plannerPage ''Pension'' ''Austin'')"
    and "el_value (props (plannerPage ''Pension'' ''Austin'') ''domain'') = ''Pension''"
    and "el_value (props (plannerPage ''Pension'' ''Austin'') ''location'') = ''Austin''"
    by (simp_all add: plannerPage_def pageOf_def)
  from searchResources_pension_austin [OF this] show ?thesis
    by (elim conjE)
qed

text \<open>
  C10: only the location is trimmed before the presence test. A domain that is not
  empty and consists of whitespace only passes the test: with a location that is not
  blank, the result region gets the header with that domain in it as it is, and not
  the error message; with a location of whitespace only, the region gets the error
  message.
\<close>

theorem searchResources_whitespace_domain:
  assumes "''domain'' \<in> document pg" and "''location'' \<in> document pg"
    and "''planResult'' \<in> document pg"
    and "el_value (props pg ''domain'') \<noteq> []"
    and "\<forall>c\<in>set (el_value (props pg ''domain'')). isWhiteSpace c"
  shows "(trim (el_value (props pg ''location'')) \<noteq> [] \<longrightarrow>
            innerHTML (props (after (searchResources pg)) ''planResult'') =
              resultHeader (''Displaying mock results for '' @ el_value (props pg ''domain'')
                              @ '' in '' @ trim (el_value (props pg ''location'')))
            \<and> innerHTML (props (after (searchResources pg)) ''planResult'') \<noteq> errorCard)
       \<and> ((\<forall>c\<in>set (el_value (props pg ''location'')). isWhiteSpace c) \<longrightarrow>
            innerHTML (props (after (searchResources pg)) ''planResult'') = errorCard)"
proof (intro conjI impI)
  assume l: "trim (el_value (props pg ''location'')) \<noteq> []"
  show h: "innerHTML (props (after (searchResources pg)) ''planResult'') =
          resultHeader (''Displaying mock results for '' @ el_value (props pg ''domain'')
                          @ '' in '' @ trim (el_value (props pg ''location'')))"
    using assms(1-4) l by (simp add: searchResources_valid headerText_def)
  have "resultHeader t \<noteq> errorCard" for t
    by (simp add: errorCard_def resultHeader_def)
  then show "innerHTML (props (after (searchResources pg)) ''planResult'') \<noteq> errorCard"
    by (simp only: h not_False_eq_True)
next
  assume "\<forall>c\<in>set (el_value (props pg ''location'')). isWhiteSpace c"
  then have "trim (el_value (props pg ''location'')) = []"
    by (simp only: trim_empty_iff)
  then show "innerHTML (props (after (searchResources pg)) ''planResult'') = errorCard"
    using assms(1-3) by (simp add: searchResources_invalid)
qed

theorem searchResources_whitespace_domain_witness:
  \<open>innerHTML (props (after (searchResources (plannerPage '' '' ''Austin''))) ''planResult'') =
     ''<div class="result-header"><h2>Displaying mock results for   in Austin</h2></div>''
   \<and> innerHTML (props (after (searchResources (plannerPage '' '' ''  ''))) ''planResult'') = errorCard\<close>
proof -
  have t: "trim ''Austin'' = ''Austin''"
    by (simp add: trim_def isWhiteSpace_def)
  have a: \<open>innerHTML (props (after (searchResources (plannerPage '' '' ''Austin''))) ''planResult'') =
     ''<div class="result-header"><h2>Displaying mock results for   in Austin</h2></div>''\<close>
    using searchResources_whitespace_domain [of "plannerPage '' '' ''Austin''"] t
    by (simp add: plannerPage_def pageOf_def isWhiteSpace_def resultHeader_def)
  have b: "innerHTML (props (after (searchResources (plannerPage '' '' ''  ''))) ''planResult'') = errorCard"
    using searchResources_whitespace_domain [of "plannerPage '' '' ''  ''"]
    by (simp add: plannerPage_def pageOf_def isWhiteSpace_def)
  show ?thesis using a b by (intro conjI)
qed

section \<open>Claims about the Video Guide search\<close>

text \<open>
  C5: when no query is passed (or an empty one) and the field is empty or holds
  whitespace only, or is missing, the search term is empty: \<open>searchVideos\<close> shows the
  alert and changes nothing else, so the markup of the video container stays as it
  was.
\<close>

theorem searchVideos_empty_term:
  assumes "query = None \<or> query = Some []"
    and "''searchInput'' \<in> document pg \<longrightarrow>
           (\<forall>c\<in>set (el_value (props pg ''searchInput'')). isWhiteSpace c)"
  shows "searchVideos query pg = Returns (alert ''Please enter a search topic.'' pg)
         \<and> alerts (after (searchVideos query pg)) = alerts pg @ [''Please enter a search topic.'']
         \<and> props (after (searchVideos query pg)) = props pg
         \<and> innerHTML (props (after (searchVideos query pg)) ''videoContainer'') =
             innerHTML (props pg ''videoContainer'')"
proof -
  have f: "(case getElementById pg ''searchInput'' of
              Some i \<Rightarrow> trim (el_value (props pg i)) | None \<Rightarrow> []) = []"
    using assms(2) by (simp add: getElementById_def trim_empty_iff)
  have r: "searchVideos query pg = Returns (alert ''Please enter a search topic.'' pg)"
    using assms(1) f by (auto simp add: searchVideos_def Let_def)
  show ?thesis by (simp add: r alert_def)
qed

theorem searchVideos_empty_term_witness:
  "searchVideos None (guidePage ''   '') =
     Returns (alert ''Please enter a search topic.'' (guidePage ''   ''))
   \<and> alerts (after (searchVideos None (guidePage ''   ''))) = [''Please enter a search topic.'']
   \<and> innerHTML (props (after (searchVideos None (guidePage ''   ''))) ''videoContainer'') = []"
proof -
  have q: "None = None \<or> None = Some ''''"
    by simp
  have f: "''searchInput'' \<in> document (guidePage ''   '') \<longrightarrow>
             (\<forall>c\<in>set (el_value (props (guidePage ''   '') ''searchInput'')). isWhiteSpace c)"
    by (simp add: guidePage_def pageOf_def isWhiteSpace_def)
  have a: "alerts (guidePage ''   '') = []"
    and b: "innerHTML (props (guidePage ''   '') ''videoContainer'') = []"
    by (simp_all add: guidePage_def pageOf_def blankElement_def)
  from searchVideos_empty_term [OF q f] show ?thesis
    by (simp add: a b alert_def)
qed

section \<open>Facts about the chatbot and the runs of the page\<close>

lemma DOMContentLoaded_chatPage:
  "DOMContentLoaded (chatPage v) =
     (chatPage v)\<lparr>listeners :=
        [(''open-chatbot-btn'', ''click'', OpenChatbot ''chatbot-container''),
         (''close-chatbot-btn'', ''click'', CloseChatbot ''chatbot-container''),
         (''chat-form'', ''submit'',
            ChatSubmit (Some ''chat-input-field'') (Some ''chat-body''))]\<rparr>"
  by (simp add: DOMContentLoaded_def getElementById_def chatPage_def pageOf_def
      addEventListener_def)

lemma transcript_frame [simp]:
  "transcript (setInnerHTML h v pg) = transcript pg"
  "transcript (setDisplay h v pg) = transcript pg"
  "transcript (setValue h v pg) = transcript pg"
  "transcript (setScrollTop h n pg) = transcript pg"
  "transcript (scrollIntoView h pg) = transcript pg"
  "transcript (alert m pg) = transcript pg"
  "transcript (setTimeout cb d pg) = transcript pg"
  "transcript (addEventListener h ty l pg) = transcript pg"
  by (simp_all add: transcript_def setInnerHTML_def setDisplay_def setValue_def
      setScrollTop_def scrollIntoView_def alert_def setTimeout_def addEventListener_def)

lemma DOMContentLoaded_installs:
  assumes "listeners p = []"
    and "''open-chatbot-btn'' \<in> document p" and "''chatbot-container'' \<in> document p"
    and "''close-chatbot-btn'' \<in> document p" and "''chat-form'' \<in> document p"
  shows "listeners (DOMContentLoaded p) =
           chatbotListeners (getElementById p ''chat-input-field'') (getElementById p ''chat-body'')"
  using assms
  by (simp add: DOMContentLoaded_def Let_def getElementById_present addEventListener_def
      chatbotListeners_def)

lemma listeners_frame [simp]:
  "listeners (setInnerHTML h v pg) = listeners pg"
  "listeners (setDisplay h v pg) = listeners pg"
  "listeners (setValue h v pg) = listeners pg"
  "listeners (setScrollTop h n pg) = listeners pg"
  "listeners (appendChild h c pg) = listeners pg"
  "listeners (scrollIntoView h pg) = listeners pg"
  "listeners (alert m pg) = listeners pg"
  "listeners (setTimeout cb d pg) = listeners pg"
  by (simp_all add: setInnerHTML_def setDisplay_def setValue_def appendChild_def
      setScrollTop_def scrollIntoView_def alert_def setTimeout_def)

lemma addMessageToChat_listeners [simp]:
  "listeners (addMessageToChat chatBody sender message pg) = listeners pg"
  by (cases chatBody) (simp_all add: addMessageToChat_def Let_def)

lemma runListener_listeners:
  "listeners (snd (after (runListener l event pg))) = listeners pg"
  by (cases l) (simp_all add: chatSubmit_def Let_def split: option.split)

lemma runListeners_listeners:
  "listeners (snd (runListeners ls event pg)) = listeners pg"
proof (induction ls arbitrary: event pg)
  case Nil
  show ?case by simp
next
  case (Cons l ls)
  obtain event1 pg1 where r: "after (runListener l event pg) = (event1, pg1)"
    by (cases "after (runListener l event pg)")
  from runListener_listeners [of l event pg] r have "listeners pg1 = listeners pg"
    by simp
  with Cons.IH [of event1 pg1] show ?case by (simp add: r)
qed

lemma fireAll_listeners: "listeners (fireAll ts pg) = listeners pg"
proof (induction ts arbitrary: pg)
  case Nil
  show ?case by simp
next
  case (Cons tc ts)
  obtain t cb where tc: "tc = (t, cb)" by (cases tc)
  obtain chatBody userMessage where cb: "cb = BotReply chatBody userMessage" by (cases cb)
  show ?case by (simp add: tc cb Cons.IH)
qed

lemma step_listeners: "listeners (step a pg) = listeners pg"
proof (cases a)
  case CallSearchResources
  then show ?thesis by (simp add: searchResources_def Let_def split: option.split)
next
  case (CallSearchVideos query)
  then show ?thesis by (simp add: searchVideos_def Let_def split: option.split)
next
  case (Fire target ty)
  then show ?thesis by (simp add: dispatchEvent_def runListeners_listeners)
next
  case (Edit h v)
  then show ?thesis by simp
next
  case (Elapse d)
  then show ?thesis by (simp add: elapse_def Let_def fireAll_listeners)
qed

lemma run_listeners: "listeners (run acts pg) = listeners pg"
  by (induction acts arbitrary: pg) (simp_all add: step_listeners)

lemma run_append: "run (xs @ ys) pg = run ys (run xs pg)"
  by (induction xs arbitrary: pg) simp_all

lemma setDisplay_twice: "setDisplay h v (setDisplay h w pg) = setDisplay h v pg"
  by (simp add: setDisplay_def)

lemma setDisplay_same: "setDisplay h (display (props pg h)) pg = pg"
  by (simp add: setDisplay_def)

lemma display_setDisplay: "display (props (setDisplay h v pg) h) = v"
  by (simp add: setDisplay_def)

lemma step_openClick:
  "listeners pg = chatbotListeners inp body \<Longrightarrow>
     step openClick pg = setDisplay ''chatbot-container'' ''flex'' pg"
  by (simp add: openClick_def dispatchEvent_def listenersFor_def chatbotListeners_def)

lemma step_closeClick:
  "listeners pg = chatbotListeners inp body \<Longrightarrow>
     step closeClick pg = setDisplay ''chatbot-container'' ''none'' pg"
  by (simp add: closeClick_def dispatchEvent_def listenersFor_def chatbotListeners_def)

lemma run_clicks:
  assumes "set acts \<subseteq> {openClick, closeClick}"
    and "listeners pg = chatbotListeners inp body"
  shows "\<exists>v. run acts pg = setDisplay ''chatbot-container'' v pg"
  using assms
proof (induction acts arbitrary: pg)
  case Nil
  show ?case using setDisplay_same [of "''chatbot-container''" pg] by (simp, metis)
next
  case (Cons a acts)
  from Cons.prems(1) have a: "a = openClick \<or> a = closeClick"
    and rest: "set acts \<subseteq> {openClick, closeClick}"
    by simp_all
  from a Cons.prems(2) obtain w where s: "step a pg = setDisplay ''chatbot-container'' w pg"
    using step_openClick step_closeClick by blast
  have "listeners (step a pg) = chatbotListeners inp body"
    using Cons.prems(2) by (simp add: step_listeners)
  from Cons.IH [OF rest this]
  obtain v where "run acts (step a pg) = setDisplay ''chatbot-container'' v (step a pg)"
    by blast
  then have "run (a # acts) pg = setDisplay ''chatbot-container'' v pg"
    by (simp add: s setDisplay_twice)
  then show ?case by blast
qed

lemma chat_hello_example:
  "transcript (run [Edit ''chat-input-field'' ''hello'', Fire ''chat-form'' ''submit'']
                 (DOMContentLoaded (chatPage [])))
     = [\<lparr>className = ''chat-message user-message'', nodeHTML = ''<p>hello</p>''\<rparr>]"
  "transcript (run [Edit ''chat-input-field'' ''hello'', Fire ''chat-form'' ''submit'', Elapse 999]
                 (DOMContentLoaded (chatPage [])))
     = [\<lparr>className = ''chat-message user-message'', nodeHTML = ''<p>hello</p>''\<rparr>]"
  "transcript (run [Edit ''chat-input-field'' ''hello'', Fire ''chat-form'' ''submit'', Elapse 1000]
                 (DOMContentLoaded (chatPage [])))
     = [\<lparr>className = ''chat-message user-message'', nodeHTML = ''<p>hello</p>''\<rparr>,
        \<lparr>className = ''chat-message bot-message'',
         nodeHTML = ''<p>Hello there! How can I assist you today?</p>''\<rparr>]"
  by code_simp+

section \<open>Claims about the chatbot\<close>

text \<open>
  C7: a submission of the chat form while the input field is empty or holds
  whitespace only prevents the default action and does nothing else: the page is as
  before, so the transcript has no new entry, of the user or of the bot, and no
  reply is scheduled.
\<close>

theorem chatSubmit_blank_input:
  assumes "\<forall>c\<in>set (el_value (props pg f)). isWhiteSpace c"
  shows "chatSubmit (Some f) chatBody event pg = Returns (preventDefault event, pg)
         \<and> transcript (snd (after (chatSubmit (Some f) chatBody event pg))) = transcript pg
         \<and> timers (snd (after (chatSubmit (Some f) chatBody event pg))) = timers pg"
proof -
  have "trim (el_value (props pg f)) = []"
    using assms by (simp only: trim_empty_iff)
  then have "chatSubmit (Some f) chatBody event pg = Returns (preventDefault event, pg)"
    by (simp add: chatSubmit_def)
  then show ?thesis by simp
qed

theorem chatSubmit_blank_input_witness:
  "step (Fire ''chat-form'' ''submit'') (DOMContentLoaded (chatPage '' '')) =
     DOMContentLoaded (chatPage '' '')
   \<and> transcript (step (Fire ''chat-form'' ''submit'') (DOMContentLoaded (chatPage '' ''))) = []
   \<and> timers (step (Fire ''chat-form'' ''submit'') (DOMContentLoaded (chatPage '' ''))) = []"
proof -
  have v: "el_value (props (DOMContentLoaded (chatPage '' '')) ''chat-input-field'') = '' ''"
    by (simp add: DOMContentLoaded_chatPage) (simp add: chatPage_def pageOf_def)
  have l: "listenersFor (DOMContentLoaded (chatPage '' '')) ''chat-form'' ''submit'' =
             [ChatSubmit (Some ''chat-input-field'') (Some ''chat-body'')]"
    by (simp add: DOMContentLoaded_chatPage listenersFor_def)
  have s: "step (Fire ''chat-form'' ''submit'') (DOMContentLoaded (chatPage '' '')) =
             DOMContentLoaded (chatPage '' '')"
    using chatSubmit_blank_input
      [of "DOMContentLoaded (chatPage '' '')" "''chat-input-field''" "Some ''chat-body''"
          "\<lparr>defaultPrevented = False\<rparr>"]
    by (simp add: dispatchEvent_def l v isWhiteSpace_def)
  have t: "transcript (DOMContentLoaded (chatPage '' '')) = []"
    by (simp add: DOMContentLoaded_chatPage transcript_def) (simp add: chatPage_def pageOf_def blankElement_def)
  have m: "timers (DOMContentLoaded (chatPage '' '')) = []"
    by (simp add: DOMContentLoaded_chatPage) (simp add: chatPage_def pageOf_def)
  show ?thesis using s t m by simp
qed

text \<open>
  C8: on a page whose chatbot was set up on load, and after any history, clicks on
  the open and close buttons change the \<open>style.display\<close> of the container and
  nothing else: after any sequence of such clicks the page is the page before with
  that one property set, the transcript is the same, and a sequence that ends with a
  click on the close button leaves \<open>'none'\<close> there (one that ends with a click on the
  open button, \<open>'flex'\<close>).
\<close>

theorem open_close_visibility_only:
  assumes "listeners p = []"
    and "''open-chatbot-btn'' \<in> document p" and "''chatbot-container'' \<in> document p"
    and "''close-chatbot-btn'' \<in> document p" and "''chat-form'' \<in> document p"
    and "pg = run history (DOMContentLoaded p)"
    and "set acts \<subseteq> {openClick, closeClick}"
  shows "(\<exists>v. run acts pg = setDisplay ''chatbot-container'' v pg)
         \<and> transcript (run acts pg) = transcript pg
         \<and> display (props (run (acts @ [closeClick]) pg) ''chatbot-container'') = ''none''
         \<and> display (props (run (acts @ [openClick]) pg) ''chatbot-container'') = ''flex''"
proof -
  let ?L = "chatbotListeners (getElementById p ''chat-input-field'') (getElementById p ''chat-body'')"
  have l: "listeners pg = ?L"
    using assms(1-6) by (simp add: run_listeners DOMContentLoaded_installs)
  from run_clicks [OF assms(7) l]
  obtain v where v: "run acts pg = setDisplay ''chatbot-container'' v pg"
    by blast
  have l': "listeners (run acts pg) = ?L"
    using l by (simp add: run_listeners)
  have c: "run (acts @ [closeClick]) pg = setDisplay ''chatbot-container'' ''none'' pg"
    using step_closeClick [OF l'] by (simp add: run_append v setDisplay_twice)
  have o: "run (acts @ [openClick]) pg = setDisplay ''chatbot-container'' ''flex'' pg"
    using step_openClick [OF l'] by (simp add: run_append v setDisplay_twice)
  show ?thesis
    using v by (auto simp add: c o display_setDisplay)
qed

theorem open_close_visibility_only_witness:
  "display (props (run [openClick, closeClick, openClick, closeClick] talkedPage)
              ''chatbot-container'') = ''none''
   \<and> transcript (run [openClick, closeClick, openClick, closeClick] talkedPage)
       = [\<lparr>className = ''chat-message user-message'', nodeHTML = ''<p>hello</p>''\<rparr>]
   \<and> run [openClick, closeClick, openClick, closeClick] talkedPage
       = setDisplay ''chatbot-container'' ''none'' talkedPage"
proof -
  have p: "listeners (chatPage []) = []"
    "''open-chatbot-btn'' \<in> document (chatPage [])"
    "''chatbot-container'' \<in> document (chatPage [])"
    "''close-chatbot-btn'' \<in> document (chatPage [])"
    "''chat-form'' \<in> document (chatPage [])"
    by (simp_all add: chatPage_def pageOf_def)
  have h: "talkedPage = run [Edit ''chat-input-field'' ''hello'', Fire ''chat-form'' ''submit'']
                  (DOMContentLoaded (chatPage []))"
    by (simp only: talkedPage_def)
  have a: "set [openClick, closeClick, openClick] \<subseteq> {openClick, closeClick}"
    and b: "set [openClick, closeClick, openClick, closeClick] \<subseteq> {openClick, closeClick}"
    by simp_all
  have t: "transcript talkedPage
       = [\<lparr>className = ''chat-message user-message'', nodeHTML = ''<p>hello</p>''\<rparr>]"
    unfolding talkedPage_def by (rule chat_hello_example(1))
  note A = open_close_visibility_only [OF p h a]
  note B = open_close_visibility_only [OF p h b]
  from B obtain v where
    v: "run [openClick, closeClick, openClick, closeClick] talkedPage
          = setDisplay ''chatbot-container'' v talkedPage"
    by blast
  from A have n: "display (props (run [openClick, closeClick, openClick, closeClick] talkedPage)
              ''chatbot-container'') = ''none''"
    by simp
  from n v have "v = ''none''"
    by (simp add: display_setDisplay)
  with v n B t show ?thesis by simp
qed

section \<open>Facts about the document tree\<close>













lemma transcript_tree_frame [simp]:
  "transcript_tree (pg\<lparr>detached := ds\<rparr>) c = transcript_tree pg c"
  "transcript_tree (pg\<lparr>nextRef := n\<rparr>) c = transcript_tree pg c"
  "transcript_tree (pg\<lparr>domAlerts := al\<rparr>) c = transcript_tree pg c"
  "transcript_tree (pg\<lparr>domTimers := ts\<rparr>) c = transcript_tree pg c"
  "transcript_tree (pg\<lparr>domClock := k\<rparr>) c = transcript_tree pg c"
  "transcript_tree (pg\<lparr>domInView := v\<rparr>) c = transcript_tree pg c"
  "transcript_tree (pg\<lparr>domListeners := ls\<rparr>) c = transcript_tree pg c"
  by (simp_all add: transcript_tree_def)

lemma nextRef_update [simp]: "nextRef (update r f pg) = nextRef pg"
  by (simp add: update_def)

lemma nextRef_attr_setters [simp]:
  "nextRef (setDisplay_tree r v pg) = nextRef pg"
  "nextRef (setValue_tree r v pg) = nextRef pg"
  "nextRef (setScrollTop_tree r n pg) = nextRef pg"
  by (simp_all add: setDisplay_tree_def setValue_tree_def setScrollTop_tree_def)






lemma grown_timers [simp]: "grown c T n (pg\<lparr>domTimers := ts\<rparr>) = grown c T n pg"
  by (simp add: grown_def)


















section \<open>Claims about missing page elements\<close>

text \<open>
  Not every missing element makes a handler skip all it does. On a page without the
  domain selector, \<open>searchResources\<close> throws a \<open>TypeError\<close>. Called without a query,
  \<open>searchVideos\<close> shows its alert on a page without the query field and on a page
  without the video container. On a page with the four elements that the page-load
  function tests and without the input field, the submit listener is installed and
  throws a \<open>TypeError\<close> when it runs. On such a page with the input field and
  without the transcript region, the submit listener is installed and, for the input
  "hello", clears the field and sets a timeout.
\<close>

theorem missing_element_counterexample:
  "searchResources (pageOf [(''location'', ''Austin''), (''planResult'', [])])
     = Throws TypeError (pageOf [(''location'', ''Austin''), (''planResult'', [])])
   \<and> searchVideos None (pageOf [(''videoContainer'', [])])
     = Returns (alert ''Please enter a search topic.'' (pageOf [(''videoContainer'', [])]))
   \<and> searchVideos None (pageOf [(''searchInput'', [])])
     = Returns (alert ''Please enter a search topic.'' (pageOf [(''searchInput'', [])]))
   \<and> alerts (alert ''Please enter a search topic.'' (pageOf [(''searchInput'', [])]))
     = [''Please enter a search topic.'']
   \<and> listenersFor (DOMContentLoaded noInputPage) ''chat-form'' ''submit''
     = [ChatSubmit None (Some ''chat-body'')]
   \<and> runListener (ChatSubmit None (Some ''chat-body'')) \<lparr>defaultPrevented = False\<rparr>
         (DOMContentLoaded noInputPage)
     = Throws TypeError (\<lparr>defaultPrevented = True\<rparr>, DOMContentLoaded noInputPage)
   \<and> listenersFor (DOMContentLoaded (noBodyPage ''hello'')) ''chat-form'' ''submit''
     = [ChatSubmit (Some ''chat-input-field'') None]
   \<and> runListener (ChatSubmit (Some ''chat-input-field'') None) \<lparr>defaultPrevented = False\<rparr>
         (DOMContentLoaded (noBodyPage ''hello''))
     = Returns (\<lparr>defaultPrevented = True\<rparr>,
         setTimeout (BotReply None ''hello'') 1000
           (setValue ''chat-input-field'' [] (DOMContentLoaded (noBodyPage ''hello''))))
   \<and> el_value (props (DOMContentLoaded (noBodyPage ''hello'')) ''chat-input-field'') = ''hello''
   \<and> el_value (props (setTimeout (BotReply None ''hello'') 1000
           (setValue ''chat-input-field'' [] (DOMContentLoaded (noBodyPage ''hello''))))
         ''chat-input-field'') = []
   \<and> timers (DOMContentLoaded (noBodyPage ''hello'')) = []
   \<and> timers (setTimeout (BotReply None ''hello'') 1000
           (setValue ''chat-input-field'' [] (DOMContentLoaded (noBodyPage ''hello''))))
     = [(1000, BotReply None ''hello'')]"
proof -
  have li: "DOMContentLoaded noInputPage =
      noInputPage\<lparr>listeners := chatbotListeners None (Some ''chat-body'')\<rparr>"
    by (simp add: DOMContentLoaded_def getElementById_def noInputPage_def pageOf_def
        addEventListener_def chatbotListeners_def)
  have lb: "DOMContentLoaded (noBodyPage ''hello'') =
      (noBodyPage ''hello'')\<lparr>listeners := chatbotListeners (Some ''chat-input-field'') None\<rparr>"
    by (simp add: DOMContentLoaded_def getElementById_def noBodyPage_def pageOf_def
        addEventListener_def chatbotListeners_def)
  have v: "el_value (props (DOMContentLoaded (noBodyPage ''hello'')) ''chat-input-field'') = ''hello''"
    by (simp add: lb) (simp add: noBodyPage_def pageOf_def)
  have t: "trim ''hello'' = ''hello''"
    by (simp add: trim_def isWhiteSpace_def)
  have c1: "searchResources (pageOf [(''location'', ''Austin''), (''planResult'', [])])
     = Throws TypeError (pageOf [(''location'', ''Austin''), (''planResult'', [])])"
    by (simp add: searchResources_def getElementById_def pageOf_def)
  have c2: "searchVideos None (pageOf [(''videoContainer'', [])])
     = Returns (alert ''Please enter a search topic.'' (pageOf [(''videoContainer'', [])]))"
    by (simp add: searchVideos_def getElementById_def pageOf_def)
  have c3: "searchVideos None (pageOf [(''searchInput'', [])])
     = Returns (alert ''Please enter a search topic.'' (pageOf [(''searchInput'', [])]))"
    by (simp add: searchVideos_def getElementById_def pageOf_def blankElement_def trim_def)
  have c4: "alerts (alert ''Please enter a search topic.'' (pageOf [(''searchInput'', [])]))
     = [''Please enter a search topic.'']"
    by (simp add: alert_def pageOf_def)
  have c5: "listenersFor (DOMContentLoaded noInputPage) ''chat-form'' ''submit''
     = [ChatSubmit None (Some ''chat-body'')]"
    by (simp add: li listenersFor_def chatbotListeners_def)
  have c6: "runListener (ChatSubmit None (Some ''chat-body'')) \<lparr>defaultPrevented = False\<rparr>
         (DOMContentLoaded noInputPage)
     = Throws TypeError (\<lparr>defaultPrevented = True\<rparr>, DOMContentLoaded noInputPage)"
    by (simp add: chatSubmit_def preventDefault_def)
  have c7: "listenersFor (DOMContentLoaded (noBodyPage ''hello'')) ''chat-form'' ''submit''
     = [ChatSubmit (Some ''chat-input-field'') None]"
    by (simp add: lb listenersFor_def chatbotListeners_def)
  have c8: "runListener (ChatSubmit (Some ''chat-input-field'') None) \<lparr>defaultPrevented = False\<rparr>
         (DOMContentLoaded (noBodyPage ''hello''))
     = Returns (\<lparr>defaultPrevented = True\<rparr>,
         setTimeout (BotReply None ''hello'') 1000
           (setValue ''chat-input-field'' [] (DOMContentLoaded (noBodyPage ''hello''))))"
    by (simp add: chatSubmit_def preventDefault_def v t addMessageToChat_def Let_def)
  have c9: "el_value (props (setTimeout (BotReply None ''hello'') 1000
           (setValue ''chat-input-field'' [] (DOMContentLoaded (noBodyPage ''hello''))))
         ''chat-input-field'') = []"
    by (simp add: setTimeout_def setValue_def)
  have c10: "timers (DOMContentLoaded (noBodyPage ''hello'')) = []"
    by (simp add: lb) (simp add: noBodyPage_def pageOf_def)
  have c11: "timers (setTimeout (BotReply None ''hello'') 1000
           (setValue ''chat-input-field'' [] (DOMContentLoaded (noBodyPage ''hello''))))
     = [(1000, BotReply None ''hello'')]"
    by (simp add: setTimeout_def setValue_def lb) (simp add: noBodyPage_def pageOf_def)
  show ?thesis
    using c1 c2 c3 c4 c5 c6 c7 c8 v c9 c10 c11 by (intro conjI)
qed

lemma searchVideos_outcome:
  "searchVideos query pg =
     Returns (if searchTermOf query pg = [] then alert ''Please enter a search topic.'' pg
              else if ''videoContainer'' \<in> document pg
                   then setInnerHTML ''videoContainer'' (videoPlaceholder (searchTermOf query pg)) pg
                   else pg)"
  by (cases query)
     (simp_all add: searchVideos_def searchTermOf_def getElementById_def Let_def)

text \<open>
  C1, as far as the guards of the script go. With the selector and the location
  field present and the result region missing, \<open>searchResources\<close> returns and leaves
  the page as it is. \<open>searchVideos\<close> always returns: it shows its alert when the
  search term is empty, whether or not the container is there, a missing query field
  counting as an empty value; with a term that is not empty it writes the
  placeholder into the container, and leaves the page as it is when the container
  is missing. When the open button, the container, the close button or the chat form
  is missing, the page-load function installs no listener, and on a page without
  listeners an event changes nothing. With the transcript region missing,
  \<open>addMessageToChat\<close> and the deferred reply leave the page as it is; the submit
  listener, the input field being there, returns: for a blank input it only
  prevents the default action, otherwise it also clears the field and schedules the
  reply, and makes no transcript entry.
\<close>

theorem missing_elements_guarded:
  "(''domain'' \<in> document pg \<and> ''location'' \<in> document pg \<and> ''planResult'' \<notin> document pg
      \<longrightarrow> searchResources pg = Returns pg)
   \<and> searchVideos query pg =
       Returns (if searchTermOf query pg = [] then alert ''Please enter a search topic.'' pg
                else if ''videoContainer'' \<in> document pg
                     then setInnerHTML ''videoContainer''
                            (videoPlaceholder (searchTermOf query pg)) pg
                     else pg)
   \<and> (''searchInput'' \<notin> document pg
      \<longrightarrow> searchTermOf query pg = (case query of Some q \<Rightarrow> q | None \<Rightarrow> []))
   \<and> (''open-chatbot-btn'' \<notin> document pg \<or> ''chatbot-container'' \<notin> document pg
        \<or> ''close-chatbot-btn'' \<notin> document pg \<or> ''chat-form'' \<notin> document pg
      \<longrightarrow> DOMContentLoaded pg = pg)
   \<and> (listeners pg = [] \<longrightarrow> step (Fire target ty) pg = pg)
   \<and> addMessageToChat None sender message pg = pg
   \<and> runCallback (BotReply None userMessage) pg = pg
   \<and> chatSubmit (Some f) None event pg =
       Returns (preventDefault event,
                if trim (el_value (props pg f)) = [] then pg
                else setTimeout (BotReply None (trim (el_value (props pg f)))) 1000
                       (setValue f [] pg))
   \<and> transcript (snd (after (chatSubmit (Some f) None event pg))) = transcript pg"
proof (intro conjI impI)
  assume "''domain'' \<in> document pg \<and> ''location'' \<in> document pg \<and> ''planResult'' \<notin> document pg"
  then show "searchResources pg = Returns pg"
    by (simp add: searchResources_def getElementById_def Let_def)
next
  show "searchVideos query pg =
       Returns (if searchTermOf query pg = [] then alert ''Please enter a search topic.'' pg
                else if ''videoContainer'' \<in> document pg
                     then setInnerHTML ''videoContainer''
                            (videoPlaceholder (searchTermOf query pg)) pg
                     else pg)"
    by (rule searchVideos_outcome)
next
  assume "''searchInput'' \<notin> document pg"
  then show "searchTermOf query pg = (case query of Some q \<Rightarrow> q | None \<Rightarrow> [])"
    by (simp add: searchTermOf_def split: option.split)
next
  assume "''open-chatbot-btn'' \<notin> document pg \<or> ''chatbot-container'' \<notin> document pg
        \<or> ''close-chatbot-btn'' \<notin> document pg \<or> ''chat-form'' \<notin> document pg"
  then show "DOMContentLoaded pg = pg"
    by (auto simp add: DOMContentLoaded_def getElementById_def Let_def)
next
  assume "listeners pg = []"
  then show "step (Fire target ty) pg = pg"
    by (simp add: dispatchEvent_def listenersFor_def)
next
  show "addMessageToChat None sender message pg = pg"
    by (simp add: addMessageToChat_def)
next
  show "runCallback (BotReply None userMessage) pg = pg"
    by (simp add: addMessageToChat_def)
next
  show "chatSubmit (Some f) None event pg =
       Returns (preventDefault event,
                if trim (el_value (props pg f)) = [] then pg
                else setTimeout (BotReply None (trim (el_value (props pg f)))) 1000
                       (setValue f [] pg))"
    by (simp add: chatSubmit_def Let_def addMessageToChat_def)
next
  show "transcript (snd (after (chatSubmit (Some f) None event pg))) = transcript pg"
    by (simp add: chatSubmit_def Let_def addMessageToChat_def)
qed

theorem missing_elements_guarded_witness:
  "searchResources (pageOf [(''domain'', ''Pension''), (''location'', ''Austin'')])
     = Returns (pageOf [(''domain'', ''Pension''), (''location'', ''Austin'')])
   \<and> searchVideos (Some ''yoga'') (pageOf [(''searchInput'', [])])
     = Returns (pageOf [(''searchInput'', [])])
   \<and> searchTermOf (Some ''yoga'') (pageOf [(''videoContainer'', [])]) = ''yoga''
   \<and> searchVideos (Some ''yoga'') (pageOf [(''videoContainer'', [])])
     = Returns (setInnerHTML ''videoContainer'' (videoPlaceholder ''yoga'')
                  (pageOf [(''videoContainer'', [])]))
   \<and> DOMContentLoaded noFormPage = noFormPage
   \<and> step (Fire ''open-chatbot-btn'' ''click'') noFormPage = noFormPage
   \<and> chatSubmit (Some ''chat-input-field'') None \<lparr>defaultPrevented = False\<rparr> (noBodyPage ''  '')
     = Returns (\<lparr>defaultPrevented = True\<rparr>, noBodyPage ''  '')"
proof (intro conjI)
  let ?A = "pageOf [(''domain'', ''Pension''), (''location'', ''Austin'')]"
  have d: "''domain'' \<in> document ?A \<and> ''location'' \<in> document ?A \<and> ''planResult'' \<notin> document ?A"
    by (simp add: pageOf_def)
  from missing_elements_guarded [of ?A] d
  show "searchResources ?A = Returns ?A"
    by blast
next
  let ?B = "pageOf [(''searchInput'', [])]"
  have q: "searchTermOf (Some ''yoga'') ?B = ''yoga''"
    by (simp add: searchTermOf_def)
  have c: "''videoContainer'' \<notin> document ?B"
    by (simp add: pageOf_def)
  from missing_elements_guarded [of ?B "Some ''yoga''"]
  have "searchVideos (Some ''yoga'') ?B =
       Returns (if searchTermOf (Some ''yoga'') ?B = [] then alert ''Please enter a search topic.'' ?B
                else if ''videoContainer'' \<in> document ?B
                     then setInnerHTML ''videoContainer''
                            (videoPlaceholder (searchTermOf (Some ''yoga'') ?B)) ?B
                     else ?B)"
    by blast
  then show "searchVideos (Some ''yoga'') ?B = Returns ?B"
    by (simp add: q c)
next
  let ?C = "pageOf [(''videoContainer'', [])]"
  have a: "''searchInput'' \<notin> document ?C"
    by (simp add: pageOf_def)
  from missing_elements_guarded [of ?C "Some ''yoga''"] a
  show q: "searchTermOf (Some ''yoga'') ?C = ''yoga''"
    by simp
  have c: "''videoContainer'' \<in> document ?C"
    by (simp add: pageOf_def)
  from missing_elements_guarded [of ?C "Some ''yoga''"]
  have "searchVideos (Some ''yoga'') ?C =
       Returns (if searchTermOf (Some ''yoga'') ?C = [] then alert ''Please enter a search topic.'' ?C
                else if ''videoContainer'' \<in> document ?C
                     then setInnerHTML ''videoContainer''
                            (videoPlaceholder (searchTermOf (Some ''yoga'') ?C)) ?C
                     else ?C)"
    by blast
  then show "searchVideos (Some ''yoga'') ?C
     = Returns (setInnerHTML ''videoContainer'' (videoPlaceholder ''yoga'') ?C)"
    by (simp add: q c)
next
  have f: "''chat-form'' \<notin> document noFormPage"
    by (simp add: noFormPage_def pageOf_def)
  from missing_elements_guarded [of noFormPage] f
  show "DOMContentLoaded noFormPage = noFormPage"
    by blast
  have l: "listeners noFormPage = []"
    by (simp add: noFormPage_def pageOf_def)
  from missing_elements_guarded [of noFormPage] l
  show "step (Fire ''open-chatbot-btn'' ''click'') noFormPage = noFormPage"
    by blast
next
  have b: "trim (el_value (props (noBodyPage ''  '') ''chat-input-field'')) = []"
    by (simp add: noBodyPage_def pageOf_def trim_def isWhiteSpace_def)
  from missing_elements_guarded [of "noBodyPage ''  ''" _ _ _ _ _ _ "''chat-input-field''"
      "\<lparr>defaultPrevented = False\<rparr>"]
  have "chatSubmit (Some ''chat-input-field'') None \<lparr>defaultPrevented = False\<rparr> (noBodyPage ''  '') =
       Returns (preventDefault \<lparr>defaultPrevented = False\<rparr>,
                if trim (el_value (props (noBodyPage ''  '') ''chat-input-field'')) = []
                then noBodyPage ''  ''
                else setTimeout (BotReply None (trim (el_value (props (noBodyPage ''  '') ''chat-input-field'')))) 1000
                       (setValue ''chat-input-field'' [] (noBodyPage ''  '')))"
    by blast
  then show "chatSubmit (Some ''chat-input-field'') None \<lparr>defaultPrevented = False\<rparr> (noBodyPage ''  '')
     = Returns (\<lparr>defaultPrevented = True\<rparr>, noBodyPage ''  '')"
    by (simp add: b preventDefault_def)
qed


section \<open>Claims about the transcript\<close>




end
